theory Spec2Isabelle
  imports Complex_Main
begin

section \<open>Static replication of CMS decompounded options\<close>

text \<open>
  A shallow embedding of the notebook \<^verbatim>\<open>decompounded_options_eko.ipynb\<close>.

  Numbers: the notebook computes with IEEE doubles; here every double is read as the real
  number it stands for, and every operation as the exact operation on reals (\<open>**\<close> with a
  float exponent is \<open>powr\<close>, with an integer literal exponent it is \<open>^\<close>; \<open>np.log\<close> is \<open>ln\<close>;
  \<open>np.sqrt\<close> is \<open>sqrt\<close>). Rounding, overflow, infinities and NaN are not represented.
  Where the double computation would leave the reals (a zero divisor, the logarithm or a
  fractional power of a non-positive number) the functions of HOL still return some real
  number, which says nothing about the program; the results below that depend on such
  values carry the domain as a hypothesis.

  Literals: the literal \<open>1e-12\<close> of the guard of \<open>SABR_model\<close> decides which branch runs, so
  it is the double that Python reads it as, \<open>4951760157141521 / 2 ^ 92\<close>, a little below
  \<open>10^-12\<close>. A decimal literal that only enters arithmetic (\<open>0.04\<close>, \<open>1e-6\<close>) is written as
  the decimal; its distance to the double is a rounding like that of every operation.

  Exceptions that do not depend on rounding (a missing curve node, a zero step of \<open>np.arange\<close>)
  are values of type \<open>error\<close>.
\<close>

subsection \<open>Library functions the notebook imports\<close>

text \<open>
  \<open>scipy.stats.norm.cdf\<close>: the distribution function of the standard normal law, by its
  everywhere convergent series
  \<open>\<Phi>(x) = 1/2 + (1/\<surd>(2\<pi>)) \<Sum>n. (-1)^n x^(2n+1) / (n! 2^n (2n+1))\<close>.
\<close>

definition norm_cdf_term :: "real \<Rightarrow> nat \<Rightarrow> real" where
  "norm_cdf_term x n = (- 1) ^ n * x ^ (2 * n + 1) / (fact n * 2 ^ n * real (2 * n + 1))"

definition norm_cdf :: "real \<Rightarrow> real" where
  "norm_cdf x = 1 / 2 + (\<Sum>n. norm_cdf_term x n) / sqrt (2 * pi)"

text \<open>The coefficients of the same series, read as a power series in \<open>x\<close>.\<close>

definition norm_cdf_coeff :: "nat \<Rightarrow> real" where
  "norm_cdf_coeff k =
     (if even k then 0
      else (- 1) ^ ((k - 1) div 2) / (fact ((k - 1) div 2) * 2 ^ ((k - 1) div 2) * real k))"

datatype error = KeyError | ZeroDivisionError

text \<open>
  \<open>np.arange(start, stop, step)\<close> on floats: \<open>\<lceil>(stop - start) / step\<rceil>\<close> values
  \<open>start + i * step\<close> (none when that count is not positive). The count is computed by a
  division, which raises for a zero step.
\<close>

definition arange :: "real \<Rightarrow> real \<Rightarrow> real \<Rightarrow> error + real list" where
  "arange start stop step =
     (if step = 0 then Inl ZeroDivisionError
      else Inr (map (\<lambda>i. start + real i * step) [0 ..< nat \<lceil>(stop - start) / step\<rceil>]))"

text \<open>
  The bootstrapped curve \<open>df_discount_factors\<close>: a data frame indexed by time, with the
  columns \<open>Forward LIBOR\<close> and \<open>Discount Factor OIS\<close>. \<open>df.loc[labels, column]\<close> raises
  \<open>KeyError\<close> when a label is not in the index.
\<close>

record curve_row =
  Forward_LIBOR :: real
  Discount_Factor_OIS :: real

type_synonym curve = "real \<rightharpoonup> curve_row"

fun loc :: "curve \<Rightarrow> real list \<Rightarrow> (curve_row \<Rightarrow> real) \<Rightarrow> error + real list" where
  "loc df [] column = Inr []"
| "loc df (t # ts) column =
     (case df t of
        None \<Rightarrow> Inl KeyError
      | Some row \<Rightarrow>
          (case loc df ts column of
             Inl e \<Rightarrow> Inl e
           | Inr vs \<Rightarrow> Inr (column row # vs)))"

text \<open>
  \<open>scipy.integrate.quad(f, a, b)\<close> returns the pair (value, error estimate); its limits are
  floats, of which the notebook uses finite ones and \<open>float("inf")\<close>. The integrator and the
  four interpolators of the calibrated SABR surface (\<open>interp2d\<close> objects built from a CSV
  file; \<open>interp(expiry, tenor)[0]\<close> is the interpolated number) are not code of the
  notebook: they are the fields of an environment that the pricers receive.
\<close>

datatype limit = Finite real | PlusInfinity

record environment =
  quad :: "(real \<Rightarrow> real) \<Rightarrow> limit \<Rightarrow> limit \<Rightarrow> real \<times> real"
  sabr_alpha_interp :: "real \<Rightarrow> real \<Rightarrow> real"
  sabr_beta_interp :: "real \<Rightarrow> real \<Rightarrow> real"
  sabr_rho_interp :: "real \<Rightarrow> real \<Rightarrow> real"
  sabr_nu_interp :: "real \<Rightarrow> real \<Rightarrow> real"

subsection \<open>Forward swap rate\<close>

definition compute_forward_swap_rate ::
  "real \<Rightarrow> real \<Rightarrow> curve \<Rightarrow> real \<Rightarrow> real \<Rightarrow> error + real" where
  "compute_forward_swap_rate expiry tenor df_discount_factors floating_leg_period fixed_leg_period =
     (let swap_end_time = expiry + tenor in
      case arange (expiry + floating_leg_period) (swap_end_time + floating_leg_period)
             floating_leg_period of
        Inl e \<Rightarrow> Inl e
      | Inr floating_leg_term \<Rightarrow>
      (case arange (expiry + fixed_leg_period) (swap_end_time + fixed_leg_period)
              fixed_leg_period of
        Inl e \<Rightarrow> Inl e
      | Inr fixed_leg_terms \<Rightarrow>
      (case loc df_discount_factors floating_leg_term Forward_LIBOR of
        Inl e \<Rightarrow> Inl e
      | Inr libor \<Rightarrow>
      (case loc df_discount_factors floating_leg_term Discount_Factor_OIS of
        Inl e \<Rightarrow> Inl e
      | Inr ois \<Rightarrow>
      (let floating_leg_pv =
             sum_list (map2 (\<lambda>l d. floating_leg_period * l * d) libor ois) in
       case loc df_discount_factors fixed_leg_terms Discount_Factor_OIS of
        Inl e \<Rightarrow> Inl e
      | Inr fixed_ois \<Rightarrow>
      (let fixed_leg_pv = sum_list (map (\<lambda>d. fixed_leg_period * d) fixed_ois) in
       Inr (floating_leg_pv / fixed_leg_pv)))))))"

subsection \<open>Black-76 model\<close>

text \<open>
  The object built by \<open>AbstractBlack76Model.__init__\<close>. The constructor stores \<open>F\<close>, \<open>K\<close>,
  \<open>sigma\<close>, \<open>T\<close>, then \<open>d1\<close> (from those), then \<open>d2\<close> (from \<open>d1\<close>), then the discount
  factor; an attribute not yet assigned is 0 in the intermediate records and is never read.
\<close>

record Black76Model =
  self_F :: real
  self_K :: real
  self_sigma :: real
  self_T :: real
  self_d1 :: real
  self_d2 :: real
  self_discount_factor :: real

definition calculate_d1 :: "Black76Model \<Rightarrow> real" where
  "calculate_d1 self =
     (ln (self_F self / self_K self) + (self_sigma self) ^ 2 / 2 * self_T self)
       / (self_sigma self * sqrt (self_T self))"

definition calculate_d2 :: "Black76Model \<Rightarrow> real" where
  "calculate_d2 self = self_d1 self - self_sigma self * sqrt (self_T self)"

definition AbstractBlack76Model ::
  "real \<Rightarrow> real \<Rightarrow> real \<Rightarrow> real \<Rightarrow> real \<Rightarrow> Black76Model" where
  "AbstractBlack76Model F K discount_factor sigma T =
     (let s0 = \<lparr>self_F = F, self_K = K, self_sigma = sigma, self_T = T,
                self_d1 = 0, self_d2 = 0, self_discount_factor = 0\<rparr>;
          s1 = s0\<lparr>self_d1 := calculate_d1 s0\<rparr>;
          s2 = s1\<lparr>self_d2 := calculate_d2 s1\<rparr>
      in s2\<lparr>self_discount_factor := discount_factor\<rparr>)"

definition VanillaBlack76Model ::
  "real \<Rightarrow> real \<Rightarrow> real \<Rightarrow> real \<Rightarrow> real \<Rightarrow> Black76Model" where
  "VanillaBlack76Model F K discount_factor sigma T =
     AbstractBlack76Model F K discount_factor sigma T"

definition calculate_call_price :: "Black76Model \<Rightarrow> real" where
  "calculate_call_price self =
     self_discount_factor self
       * (self_F self * norm_cdf (self_d1 self) - self_K self * norm_cdf (self_d2 self))"

definition calculate_put_price :: "Black76Model \<Rightarrow> real" where
  "calculate_put_price self =
     self_discount_factor self
       * (- self_F self * norm_cdf (- self_d1 self) + self_K self * norm_cdf (- self_d2 self))"

text \<open>\<open>VanillaOption.black_model\<close>, called on the module's \<open>vanilla_option\<close> object.\<close>

definition black_model :: "real \<Rightarrow> real \<Rightarrow> real \<Rightarrow> real \<Rightarrow> real \<Rightarrow> Black76Model" where
  "black_model F K discount_factor sigma T = VanillaBlack76Model F K discount_factor sigma T"

subsection \<open>SABR implied volatility\<close>

text \<open>
  The float literal \<open>1e-12\<close>: the double nearest to \<open>10^-12\<close>. It lies between \<open>2^-40\<close> and
  \<open>2^-39\<close>, where doubles are the multiples of \<open>2^-92\<close>.
\<close>

definition double_1e_12 :: real where
  "double_1e_12 = 4951760157141521 / 2 ^ 92"

definition SABR_model ::
  "real \<Rightarrow> real \<Rightarrow> real \<Rightarrow> real \<Rightarrow> real \<Rightarrow> real \<Rightarrow> real \<Rightarrow> real" where
  "SABR_model F K T alpha beta rho nu =
     (let X = K in
      if \<bar>F - K\<bar> < double_1e_12 then
        (let numer1 = (((1 - beta) ^ 2) / 24) * alpha * alpha / (F powr (2 - 2 * beta));
             numer2 = 0.25 * rho * beta * nu * alpha / (F powr (1 - beta));
             numer3 = ((2 - 3 * rho * rho) / 24) * nu * nu;
             VolAtm = alpha * (1 + (numer1 + numer2 + numer3) * T) / (F powr (1 - beta));
             sabrsigma = VolAtm
         in sabrsigma)
      else
        (let z = (nu / alpha) * ((F * X) powr (0.5 * (1 - beta))) * ln (F / X);
             zhi = ln ((((1 - 2 * rho * z + z * z) powr 0.5) + z - rho) / (1 - rho));
             numer1 = (((1 - beta) ^ 2) / 24) * ((alpha * alpha) / ((F * X) powr (1 - beta)));
             numer2 = 0.25 * rho * beta * nu * alpha / ((F * X) powr ((1 - beta) / 2));
             numer3 = ((2 - 3 * rho * rho) / 24) * nu * nu;
             numer = alpha * (1 + (numer1 + numer2 + numer3) * T) * z;
             denom1 = ((1 - beta) ^ 2 / 24) * (ln (F / X)) ^ 2;
             denom2 = (((1 - beta) ^ 4) / 1920) * ((ln (F / X)) ^ 4);
             denom = ((F * X) powr ((1 - beta) / 2)) * (1 + denom1 + denom2) * zhi;
             sabrsigma = numer / denom
         in sabrsigma))"

subsection \<open>Annuity (IRR) family\<close>

definition IRR_0 :: "real \<Rightarrow> real \<Rightarrow> real \<Rightarrow> real" where
  "IRR_0 K m N = 1 / K * (1 - 1 / (1 + K / m) powr (m * N))"

definition IRR_1 :: "real \<Rightarrow> real \<Rightarrow> real \<Rightarrow> real" where
  "IRR_1 K m N =
     - 1 / K * IRR_0 K m N + 1 / (K * m) * N * m / (1 + K / m) powr (N * m + 1)"

definition IRR_2 :: "real \<Rightarrow> real \<Rightarrow> real \<Rightarrow> real" where
  "IRR_2 K m N =
     - 2 / K * IRR_1 K m N
       - 1 / (K * m * m) * (N * m) * (N * m + 1) / (1 + K / m) powr (N * m + 2)"

subsection \<open>Annuity-settled swaption price\<close>

definition irr_settled_option_price ::
  "real \<Rightarrow> real \<Rightarrow> real \<Rightarrow> real \<Rightarrow> real \<Rightarrow> real \<Rightarrow> real \<Rightarrow> string \<Rightarrow> real" where
  "irr_settled_option_price discount_factor F K sigma T m N swaption_type =
     (let irr_0 = IRR_0 F m N;
          discount_factor_numeraire = 1;
          bm = black_model F K discount_factor_numeraire sigma T;
          price = (if swaption_type = ''receiver'' then calculate_put_price bm
                   else calculate_call_price bm)
      in discount_factor * irr_0 * price)"

subsection \<open>Payoff and replication weights\<close>

definition g_0 :: "real \<Rightarrow> real" where
  "g_0 K = (let p = 4; q = 2 in K powr (1 / p) - 0.04 powr (1 / q))"

definition g_1 :: "real \<Rightarrow> real" where
  "g_1 K = (let p = 4; q = 2 :: real in (1 / p) * K powr (1 / p - 1))"

definition g_2 :: "real \<Rightarrow> real" where
  "g_2 K = (let p = 4; q = 2 :: real in (1 / p) * (1 / p - 1) * K powr (1 / p - 2))"

text \<open>
  \<open>h_0\<close>, \<open>h_1\<close>, \<open>h_2\<close> call \<open>g_0\<close>, \<open>g_1\<close>, \<open>g_2\<close> through the module's namespace, where the
  names are looked up at each call. \<open>h_0_of\<close>, \<open>h_1_of\<close>, \<open>h_2_of\<close> are the three bodies
  with that lookup as arguments; \<open>h_0\<close>, \<open>h_1\<close>, \<open>h_2\<close> are the bodies at the notebook's own
  bindings.
\<close>

definition h_0_of :: "(real \<Rightarrow> real) \<Rightarrow> real \<Rightarrow> real \<Rightarrow> real \<Rightarrow> real" where
  "h_0_of g0 K m N = g0 K / IRR_0 K m N"

definition h_1_of :: "(real \<Rightarrow> real) \<Rightarrow> (real \<Rightarrow> real) \<Rightarrow> real \<Rightarrow> real \<Rightarrow> real \<Rightarrow> real" where
  "h_1_of g0 g1 K m N =
     (IRR_0 K m N * g1 K - g0 K * IRR_1 K m N) / (IRR_0 K m N) ^ 2"

definition h_2_of ::
  "(real \<Rightarrow> real) \<Rightarrow> (real \<Rightarrow> real) \<Rightarrow> (real \<Rightarrow> real) \<Rightarrow> real \<Rightarrow> real \<Rightarrow> real \<Rightarrow> real" where
  "h_2_of g0 g1 g2 K m N =
     (IRR_0 K m N * g2 K - IRR_2 K m N * g0 K - 2 * IRR_1 K m N * g1 K) / (IRR_0 K m N) ^ 2
       + 2 * (IRR_1 K m N) ^ 2 * g0 K / (IRR_0 K m N) ^ 3"

definition h_0 :: "real \<Rightarrow> real \<Rightarrow> real \<Rightarrow> real" where
  "h_0 K m N = h_0_of g_0 K m N"

definition h_1 :: "real \<Rightarrow> real \<Rightarrow> real \<Rightarrow> real" where
  "h_1 K m N = h_1_of g_0 g_1 K m N"

definition h_2 :: "real \<Rightarrow> real \<Rightarrow> real \<Rightarrow> real" where
  "h_2 K m N = h_2_of g_0 g_1 g_2 K m N"

subsection \<open>The two pricers\<close>

definition compute_options_payoff_1 ::
  "environment \<Rightarrow> real \<Rightarrow> real \<Rightarrow> real \<Rightarrow> real \<Rightarrow> curve \<Rightarrow> error + real" where
  "compute_options_payoff_1 env expiry tenor payment_period discount_factor df_discount_factors =
     (case compute_forward_swap_rate expiry tenor df_discount_factors
             payment_period payment_period of
        Inl e \<Rightarrow> Inl e
      | Inr F \<Rightarrow>
        (let alpha = sabr_alpha_interp env expiry tenor;
             beta = sabr_beta_interp env expiry tenor;
             rho = sabr_rho_interp env expiry tenor;
             nu = sabr_nu_interp env expiry tenor;
             first_term = discount_factor * g_0 F;
             second_term = 0;
             third_term = fst (quad env
               (\<lambda>x. h_2 x (1 / payment_period) tenor
                  * irr_settled_option_price discount_factor F x
                      (SABR_model F x expiry alpha beta rho nu)
                      expiry (1 / payment_period) tenor ''receiver'')
               (Finite (1 / 10 ^ 6)) (Finite F));
             fourth_term = fst (quad env
               (\<lambda>x. h_2 x (1 / payment_period) tenor
                  * irr_settled_option_price discount_factor F x
                      (SABR_model F x expiry alpha beta rho nu)
                      expiry (1 / payment_period) tenor ''payer'')
               (Finite F) PlusInfinity)
         in Inr (first_term + second_term + third_term + fourth_term)))"

definition compute_options_payoff_2 ::
  "environment \<Rightarrow> real \<Rightarrow> real \<Rightarrow> real \<Rightarrow> real \<Rightarrow> real \<Rightarrow> curve \<Rightarrow> error + real" where
  "compute_options_payoff_2 env L expiry tenor payment_period discount_factor df_discount_factors =
     (case compute_forward_swap_rate expiry tenor df_discount_factors
             payment_period payment_period of
        Inl e \<Rightarrow> Inl e
      | Inr F \<Rightarrow>
        (let alpha = sabr_alpha_interp env expiry tenor;
             beta = sabr_beta_interp env expiry tenor;
             rho = sabr_rho_interp env expiry tenor;
             nu = sabr_nu_interp env expiry tenor;
             first_term =
               irr_settled_option_price discount_factor F L
                 (SABR_model F L expiry alpha beta rho nu)
                 expiry (1 / payment_period) tenor ''payer''
               * h_1 L (1 / payment_period) tenor;
             second_term = fst (quad env
               (\<lambda>x. h_2 x (1 / payment_period) tenor
                  * irr_settled_option_price discount_factor F x
                      (SABR_model F x expiry alpha beta rho nu)
                      expiry (1 / payment_period) tenor ''payer'')
               (Finite F) PlusInfinity)
         in Inr (first_term + second_term)))"

subsection \<open>Formulas of the specification\<close>

text \<open>
  The definitions of this subsection are not translations of code. Each one writes down a
  formula in the words of the specification, to be compared with the function of the
  notebook that it describes.
\<close>

text \<open>The Black-76 moneyness terms and the call and put prices under a numeraire discount factor \<open>D\<close>.\<close>

definition spec_d1 :: "real \<Rightarrow> real \<Rightarrow> real \<Rightarrow> real \<Rightarrow> real" where
  "spec_d1 F K sigma T = (ln (F / K) + sigma\<^sup>2 * T / 2) / (sigma * sqrt T)"

definition spec_d2 :: "real \<Rightarrow> real \<Rightarrow> real \<Rightarrow> real \<Rightarrow> real" where
  "spec_d2 F K sigma T = spec_d1 F K sigma T - sigma * sqrt T"

definition spec_black76_call :: "real \<Rightarrow> real \<Rightarrow> real \<Rightarrow> real \<Rightarrow> real \<Rightarrow> real" where
  "spec_black76_call D F K sigma T =
     D * (F * norm_cdf (spec_d1 F K sigma T) - K * norm_cdf (spec_d2 F K sigma T))"

definition spec_black76_put :: "real \<Rightarrow> real \<Rightarrow> real \<Rightarrow> real \<Rightarrow> real \<Rightarrow> real" where
  "spec_black76_put D F K sigma T =
     D * (K * norm_cdf (- spec_d2 F K sigma T) - F * norm_cdf (- spec_d1 F K sigma T))"





text \<open>The degenerate linear payoff \<open>g(K) = K\<close> with its two derivatives.\<close>

definition linear_g_0 :: "real \<Rightarrow> real" where
  "linear_g_0 K = K"

definition linear_g_1 :: "real \<Rightarrow> real" where
  "linear_g_1 K = 1"

definition linear_g_2 :: "real \<Rightarrow> real" where
  "linear_g_2 K = 0"

subsection \<open>Sample data\<close>

text \<open>
  A curve with the two nodes 1.5 and 2, an integrator (the one-point midpoint rule, on
  \<open>[a, \<infinity>)\<close> after the substitution \<open>x = a + t / (1 - t)\<close>) and a flat SABR surface. They
  instantiate the pricers at concrete inputs.
\<close>

definition sample_curve :: curve where
  "sample_curve =
     [3 / 2 \<mapsto> \<lparr>Forward_LIBOR = 4 / 100, Discount_Factor_OIS = 95 / 100\<rparr>,
      2 \<mapsto> \<lparr>Forward_LIBOR = 6 / 100, Discount_Factor_OIS = 90 / 100\<rparr>]"

definition midpoint_quad :: "(real \<Rightarrow> real) \<Rightarrow> limit \<Rightarrow> limit \<Rightarrow> real \<times> real" where
  "midpoint_quad f a b =
     (case a of
        PlusInfinity \<Rightarrow> (0, 0)
      | Finite x \<Rightarrow>
          (case b of
             PlusInfinity \<Rightarrow> (4 * f (x + 1), 0)
           | Finite y \<Rightarrow> ((y - x) * f ((x + y) / 2), 0)))"

definition sample_env :: environment where
  "sample_env =
     \<lparr>quad = midpoint_quad,
      sabr_alpha_interp = (\<lambda>expiry tenor. 15 / 100),
      sabr_beta_interp = (\<lambda>expiry tenor. 9 / 10),
      sabr_rho_interp = (\<lambda>expiry tenor. - 3 / 10),
      sabr_nu_interp = (\<lambda>expiry tenor. 4 / 10)\<rparr>"

section \<open>Properties\<close>

subsection \<open>The normal distribution function\<close>

lemma norm_cdf_term_minus: "norm_cdf_term (- x) n = - norm_cdf_term x n"
  by (simp add: norm_cdf_term_def)

lemma norm_cdf_term_bound:
  "\<bar>norm_cdf_term x n\<bar> \<le> \<bar>x\<bar> * (inverse (fact n) * (x\<^sup>2 / 2) ^ n)"
proof -
  have "\<bar>norm_cdf_term x n\<bar> = \<bar>x\<bar> * (x\<^sup>2) ^ n / (fact n * 2 ^ n * real (2 * n + 1))"
    by (simp add: norm_cdf_term_def abs_mult power_abs power_mult power_add)
  also have "\<dots> \<le> \<bar>x\<bar> * (x\<^sup>2) ^ n / (fact n * 2 ^ n * 1)"
    by (intro divide_left_mono mult_left_mono mult_nonneg_nonneg mult_pos_pos) simp_all
  also have "\<dots> = \<bar>x\<bar> * (inverse (fact n) * (x\<^sup>2 / 2) ^ n)"
    by (simp add: field_simps)
  finally show ?thesis .
qed

lemma norm_cdf_term_summable: "summable (norm_cdf_term x)"
proof (rule summable_comparison_test)
  show "\<exists>N. \<forall>n\<ge>N. norm (norm_cdf_term x n) \<le> \<bar>x\<bar> * (inverse (fact n) * (x\<^sup>2 / 2) ^ n)"
    using norm_cdf_term_bound by auto
  show "summable (\<lambda>n. \<bar>x\<bar> * (inverse (fact n) * (x\<^sup>2 / 2) ^ n))"
    by (intro summable_mult summable_exp)
qed

lemma norm_cdf_symmetry: "norm_cdf x + norm_cdf (- x) = 1"
proof -
  have "(\<Sum>n. norm_cdf_term (- x) n) = - (\<Sum>n. norm_cdf_term x n)"
    by (simp add: norm_cdf_term_minus suminf_minus norm_cdf_term_summable)
  then show ?thesis
    by (simp add: norm_cdf_def)
qed

lemma norm_cdf_zero: "norm_cdf 0 = 1 / 2"
  by (simp add: norm_cdf_def norm_cdf_term_def)

text \<open>
  The series is the distribution function: its value at 0 is \<open>1/2\<close> and its derivative is
  the standard normal density \<open>exp (- x\<^sup>2 / 2) / \<surd>(2\<pi>)\<close>.
\<close>

lemma norm_cdf_coeff_term:
  "norm_cdf_coeff k * x ^ k = (if even k then 0 else norm_cdf_term x ((k - 1) div 2))"
proof (cases "even k")
  case True
  then show ?thesis by (simp add: norm_cdf_coeff_def)
next
  case False
  then obtain n where k: "k = 2 * n + 1" by (auto elim: oddE)
  show ?thesis by (simp add: k norm_cdf_coeff_def norm_cdf_term_def)
qed

lemma norm_cdf_power_series: "(\<lambda>k. norm_cdf_coeff k * x ^ k) sums (\<Sum>n. norm_cdf_term x n)"
  unfolding norm_cdf_coeff_term
  by (intro sums_if' summable_sums norm_cdf_term_summable)

lemma norm_cdf_diffs_term:
  "diffs norm_cdf_coeff k * x ^ k
     = (if even k then (- (x\<^sup>2) / 2) ^ (k div 2) /\<^sub>R fact (k div 2) else 0)"
proof (cases "even k")
  case True
  then obtain j where k: "k = 2 * j" by (auto elim: evenE)
  have "diffs norm_cdf_coeff (2 * j)
          = real (Suc (2 * j)) * ((- 1) ^ j / (fact j * 2 ^ j * real (Suc (2 * j))))"
    by (simp add: diffs_def norm_cdf_coeff_def)
  also have "\<dots> = (- 1) ^ j / (fact j * 2 ^ j)"
    by (simp only: times_divide_eq_right nonzero_mult_divide_mult_cancel_left
        mult.commute [of _ "real (Suc (2 * j))"] of_nat_neq_0 not_False_eq_True)
  finally have d: "diffs norm_cdf_coeff (2 * j) = (- 1) ^ j / (fact j * 2 ^ j)" .
  have "(- (x\<^sup>2) / 2) ^ j = ((- 1) * (x\<^sup>2 / 2)) ^ j"
    by simp
  also have "\<dots> = (- 1) ^ j * (x\<^sup>2 / 2) ^ j"
    by (rule power_mult_distrib)
  also have "\<dots> = (- 1) ^ j * x ^ (2 * j) / 2 ^ j"
    by (simp add: power_divide power_mult)
  finally have p: "(- (x\<^sup>2) / 2) ^ j = (- 1) ^ j * x ^ (2 * j) / 2 ^ j" .
  have "diffs norm_cdf_coeff (2 * j) * x ^ (2 * j) = ((- 1) ^ j * x ^ (2 * j) / 2 ^ j) / fact j"
    by (simp only: d times_divide_eq_left divide_divide_eq_left mult.commute [of "2 ^ j"])
  also have "\<dots> = (- (x\<^sup>2) / 2) ^ j / fact j"
    by (simp only: p)
  also have "\<dots> = (- (x\<^sup>2) / 2) ^ j /\<^sub>R fact j"
    by (simp add: inverse_eq_divide)
  finally show ?thesis
    by (simp add: k)
next
  case False
  then show ?thesis by (simp add: diffs_def norm_cdf_coeff_def)
qed

lemma norm_cdf_diffs_series: "(\<lambda>k. diffs norm_cdf_coeff k * x ^ k) sums exp (- (x\<^sup>2) / 2)"
proof -
  have "(\<lambda>n. if even n then (- (x\<^sup>2) / 2) ^ (n div 2) /\<^sub>R fact (n div 2) else (\<lambda>_. 0) ((n - 1) div 2))
          sums (0 + exp (- (x\<^sup>2) / 2))"
    by (intro sums_if sums_zero exp_converges)
  then show ?thesis
    by (simp add: norm_cdf_diffs_term)
qed

lemma norm_cdf_density:
  "(norm_cdf has_real_derivative exp (- (x\<^sup>2) / 2) / sqrt (2 * pi)) (at x)"
proof -
  have "summable (\<lambda>k. norm_cdf_coeff k * (\<bar>x\<bar> + 1) ^ k)"
    using norm_cdf_power_series [of "\<bar>x\<bar> + 1"] by (rule sums_summable)
  moreover have "norm x < norm (\<bar>x\<bar> + 1)"
    by simp
  ultimately have "((\<lambda>x. \<Sum>k. norm_cdf_coeff k * x ^ k) has_real_derivative
                     (\<Sum>k. diffs norm_cdf_coeff k * x ^ k)) (at x)"
    by (rule termdiffs_strong)
  moreover have "(\<Sum>k. diffs norm_cdf_coeff k * x ^ k) = exp (- (x\<^sup>2) / 2)"
    by (rule sums_unique [symmetric, OF norm_cdf_diffs_series])
  moreover have "(\<lambda>x. \<Sum>k. norm_cdf_coeff k * x ^ k) = (\<lambda>x. \<Sum>n. norm_cdf_term x n)"
    using norm_cdf_power_series by (auto simp: fun_eq_iff sums_unique [symmetric])
  ultimately have "((\<lambda>x. \<Sum>n. norm_cdf_term x n) has_real_derivative exp (- (x\<^sup>2) / 2)) (at x)"
    by simp
  then have "((\<lambda>x. 1 / 2 + (\<Sum>n. norm_cdf_term x n) / sqrt (2 * pi)) has_real_derivative
               0 + exp (- (x\<^sup>2) / 2) / sqrt (2 * pi)) (at x)"
    by (intro DERIV_add DERIV_const DERIV_cdivide)
  moreover have "norm_cdf = (\<lambda>x. 1 / 2 + (\<Sum>n. norm_cdf_term x n) / sqrt (2 * pi))"
    by (simp add: fun_eq_iff norm_cdf_def)
  ultimately show ?thesis by simp
qed

subsection \<open>The Black-76 object\<close>

lemma black_model_fields:
  "self_F (black_model F K D sigma T) = F"
  "self_K (black_model F K D sigma T) = K"
  "self_discount_factor (black_model F K D sigma T) = D"
  "self_d1 (black_model F K D sigma T) = spec_d1 F K sigma T"
  "self_d2 (black_model F K D sigma T) = spec_d2 F K sigma T"
  by (simp_all add: black_model_def VanillaBlack76Model_def AbstractBlack76Model_def
      calculate_d1_def calculate_d2_def spec_d1_def spec_d2_def Let_def)

lemma call_price_spec:
  "calculate_call_price (black_model F K D sigma T) = spec_black76_call D F K sigma T"
  by (simp add: calculate_call_price_def spec_black76_call_def black_model_fields)

lemma put_price_spec:
  "calculate_put_price (black_model F K D sigma T) = spec_black76_put D F K sigma T"
  by (simp add: calculate_put_price_def spec_black76_put_def black_model_fields)

subsection \<open>The annuity-settled price\<close>

text \<open>
  C2. For the side \<open>receiver\<close> the annuity-settled price is the external discount factor
  times the annuity \<open>IRR_0\<close> at the forward \<open>F\<close> (not at the strike) times the Black-76 put
  price, and for the side \<open>payer\<close> the same with the Black-76 call price; the Black-76
  price is computed with the numeraire discount factor 1.
\<close>

theorem irr_settled_option_price_two_stage:
  "irr_settled_option_price DF F K sigma T m N ''receiver''
     = DF * IRR_0 F m N * spec_black76_put 1 F K sigma T
   \<and> irr_settled_option_price DF F K sigma T m N ''payer''
     = DF * IRR_0 F m N * spec_black76_call 1 F K sigma T"
  by (simp add: irr_settled_option_price_def call_price_spec put_price_spec)

text \<open>
  C9. The side selector is not validated: every string other than \<open>receiver\<close> selects the
  call price, so the result is the payer price. The function has no error result.
\<close>

theorem irr_settled_option_price_unvalidated_side:
  assumes "swaption_type \<noteq> ''receiver''"
  shows "irr_settled_option_price DF F K sigma T m N swaption_type
           = DF * IRR_0 F m N * calculate_call_price (black_model F K 1 sigma T)
         \<and> irr_settled_option_price DF F K sigma T m N swaption_type
           = irr_settled_option_price DF F K sigma T m N ''payer''"
  using assms by (simp add: irr_settled_option_price_def)

theorem irr_settled_option_price_unvalidated_side_witness:
  "''reciever'' \<noteq> ''receiver''
   \<and> irr_settled_option_price 1 2 3 4 5 6 7 ''reciever''
       = 1 * IRR_0 2 6 7 * calculate_call_price (black_model 2 3 1 4 5)
   \<and> irr_settled_option_price 1 2 3 4 5 6 7 ''reciever''
       = irr_settled_option_price 1 2 3 4 5 6 7 ''payer''"
  using irr_settled_option_price_unvalidated_side [of "''reciever''" 1 2 3 4 5 6 7] by simp

subsection \<open>The SABR volatility\<close>









subsection \<open>The replication weight of a linear payoff\<close>

lemma IRR_0_at_1: "IRR_0 1 1 1 = 1 / 2"
  by (simp add: IRR_0_def)

lemma IRR_1_at_1: "IRR_1 1 1 1 = - 1 / 4"
  by (simp add: IRR_1_def IRR_0_at_1)

lemma IRR_2_at_1: "IRR_2 1 1 1 = 1 / 4"
  by (simp add: IRR_2_def IRR_1_at_1)

text \<open>
  C5, as stated: with the payoff \<open>g(K) = K\<close> the weight \<open>h_2\<close> would be
  \<open>- IRR_2 / IRR_0\<^sup>2 + 2 IRR_1\<^sup>2 / IRR_0\<^sup>3\<close>. At \<open>K = m = N = 1\<close> the annuity is \<open>1/2\<close>, its
  derivatives are \<open>-1/4\<close> and \<open>1/4\<close>, the weight is 2 (the second derivative of
  \<open>K / IRR_0(K) = K + K\<^sup>2\<close>) and the stated expression is 0.
\<close>

theorem h_2_linear_payoff_counterexample:
  "h_2_of linear_g_0 linear_g_1 linear_g_2 1 1 1
     \<noteq> - IRR_2 1 1 1 / (IRR_0 1 1 1)\<^sup>2 + 2 * (IRR_1 1 1 1)\<^sup>2 / (IRR_0 1 1 1) ^ 3"
  by (simp add: h_2_of_def linear_g_0_def linear_g_1_def linear_g_2_def
      IRR_0_at_1 IRR_1_at_1 IRR_2_at_1 power2_eq_square power3_eq_cube)

text \<open>
  C5, amended: with the payoff \<open>g(K) = K\<close> and \<open>K, m, N > 0\<close> the weight \<open>h_2\<close> is
  \<open>K (- IRR_2 / IRR_0\<^sup>2 + 2 IRR_1\<^sup>2 / IRR_0\<^sup>3) - 2 IRR_1 / IRR_0\<^sup>2\<close>: the stated expression
  is multiplied by \<open>g_0 = K\<close>, and the term of \<open>g_1 = 1\<close> stays.
\<close>

theorem h_2_linear_payoff:
  assumes "0 < K" and "0 < m" and "0 < N"
  shows "h_2_of linear_g_0 linear_g_1 linear_g_2 K m N
           = K * (- IRR_2 K m N / (IRR_0 K m N)\<^sup>2 + 2 * (IRR_1 K m N)\<^sup>2 / (IRR_0 K m N) ^ 3)
             - 2 * IRR_1 K m N / (IRR_0 K m N)\<^sup>2"
  by (simp add: h_2_of_def linear_g_0_def linear_g_1_def linear_g_2_def
      diff_divide_distrib algebra_simps)

theorem h_2_linear_payoff_witness:
  "(0::real) < 1
   \<and> h_2_of linear_g_0 linear_g_1 linear_g_2 1 1 1
       = 1 * (- IRR_2 1 1 1 / (IRR_0 1 1 1)\<^sup>2 + 2 * (IRR_1 1 1 1)\<^sup>2 / (IRR_0 1 1 1) ^ 3)
         - 2 * IRR_1 1 1 1 / (IRR_0 1 1 1)\<^sup>2"
  using h_2_linear_payoff [of 1 1 1] by simp

subsection \<open>Put-call parity\<close>

lemma black76_parity:
  "spec_black76_call D F K sigma T - spec_black76_put D F K sigma T = D * (F - K)"
proof -
  have "spec_black76_call D F K sigma T - spec_black76_put D F K sigma T
      = D * (F * (norm_cdf (spec_d1 F K sigma T) + norm_cdf (- spec_d1 F K sigma T))
           - K * (norm_cdf (spec_d2 F K sigma T) + norm_cdf (- spec_d2 F K sigma T)))"
    by (simp add: spec_black76_call_def spec_black76_put_def algebra_simps)
  then show ?thesis
    by (simp add: norm_cdf_symmetry)
qed

text \<open>
  C6. Put-call parity of the annuity-settled price: for positive \<open>F\<close>, \<open>K\<close>, \<open>sigma\<close>, \<open>T\<close>,
  \<open>m\<close>, \<open>N\<close> and every discount factor, the payer price minus the receiver price is
  \<open>DF * IRR_0(F, m, N) * (F - K)\<close>.
\<close>

theorem irr_settled_option_price_parity:
  assumes "0 < F" and "0 < K" and "0 < sigma" and "0 < T" and "0 < m" and "0 < N"
  shows "irr_settled_option_price DF F K sigma T m N ''payer''
           - irr_settled_option_price DF F K sigma T m N ''receiver''
         = DF * IRR_0 F m N * (F - K)"
proof -
  have "irr_settled_option_price DF F K sigma T m N ''payer''
           - irr_settled_option_price DF F K sigma T m N ''receiver''
        = DF * IRR_0 F m N * (spec_black76_call 1 F K sigma T - spec_black76_put 1 F K sigma T)"
    by (simp add: irr_settled_option_price_def call_price_spec put_price_spec right_diff_distrib)
  then show ?thesis
    by (simp add: black76_parity)
qed

theorem irr_settled_option_price_parity_witness:
  "(0::real) < 1 \<and> (0::real) < 2 \<and> (0::real) < 3 \<and> (0::real) < 5 \<and> (0::real) < 10
   \<and> irr_settled_option_price (9 / 10) 1 2 3 5 2 10 ''payer''
           - irr_settled_option_price (9 / 10) 1 2 3 5 2 10 ''receiver''
         = 9 / 10 * IRR_0 1 2 10 * (1 - 2)"
  using irr_settled_option_price_parity [of 1 2 3 5 2 10 "9 / 10"] by simp

subsection \<open>Derivatives and limit of the annuity\<close>

lemma annuity_discount_deriv:
  assumes "0 < 1 + K / m" and "m \<noteq> 0"
  shows "((\<lambda>K. 1 / (1 + K / m) powr r) has_real_derivative
           - (r / m) / (1 + K / m) powr (r + 1)) (at K)"
proof -
  have "((\<lambda>K. (1 + K / m) powr (- r)) has_real_derivative
           (- r) * (1 + K / m) powr (- r - 1) * (1 / m)) (at K)"
    using assms by (auto intro!: derivative_eq_intros)
  moreover have "(1 + K / m) powr (- r) = 1 / (1 + K / m) powr r" for K
    by (simp add: powr_minus_divide)
  moreover have "(- r) * (1 + K / m) powr (- r - 1) * (1 / m)
                   = - (r / m) / (1 + K / m) powr (r + 1)"
    using powr_minus_divide [of "1 + K / m" "r + 1"] by simp
  ultimately show ?thesis by simp
qed

lemma reciprocal_deriv:
  assumes "K \<noteq> (0::real)"
  shows "((\<lambda>K. c / K) has_real_derivative - (c / K\<^sup>2)) (at K)"
  using assms by (auto intro!: derivative_eq_intros simp: power2_eq_square)

lemma IRR_0_deriv:
  assumes "0 < K" and "0 < m"
  shows "((\<lambda>K. IRR_0 K m N) has_real_derivative IRR_1 K m N) (at K)"
proof -
  define q where "q = (\<lambda>K. 1 / (1 + K / m) powr (m * N))"
  define B where "B = (1 + K / m) powr (m * N + 1)"
  have pos: "0 < 1 + K / m" using assms by (simp add: add_pos_pos)
  have B: "0 < B" using pos by (simp add: B_def)
  have dq: "(q has_real_derivative - (m * N / m) / B) (at K)"
    unfolding q_def B_def using assms by (intro annuity_discount_deriv [OF pos]) simp
  have "((\<lambda>K. 1 - q K) has_real_derivative 0 - (- (m * N / m) / B)) (at K)"
    by (intro DERIV_diff DERIV_const dq)
  from DERIV_mult [OF reciprocal_deriv [of K 1] this]
  have "((\<lambda>K. 1 / K * (1 - q K)) has_real_derivative
          - (1 / K\<^sup>2) * (1 - q K) + (0 - (- (m * N / m) / B)) * (1 / K)) (at K)"
    using assms by simp
  moreover have "- (1 / K\<^sup>2) * (1 - q K) + (0 - (- (m * N / m) / B)) * (1 / K) = IRR_1 K m N"
  proof -
    have "IRR_1 K m N = - 1 / K * (1 / K * (1 - q K)) + 1 / (K * m) * N * m / B"
      by (simp add: IRR_1_def IRR_0_def q_def B_def mult.commute [of N m])
    also have "\<dots> = - (1 / K\<^sup>2) * (1 - q K) + (0 - (- (m * N / m) / B)) * (1 / K)"
      using assms B by (simp add: power2_eq_square field_simps)
    finally show ?thesis by simp
  qed
  ultimately show ?thesis
    by (simp add: IRR_0_def q_def)
qed

lemma IRR_1_deriv:
  assumes "0 < K" and "0 < m"
  shows "((\<lambda>K. IRR_1 K m N) has_real_derivative IRR_2 K m N) (at K)"
proof -
  define q where "q = (\<lambda>K. 1 / (1 + K / m) powr (N * m + 1))"
  define C where "C = (1 + K / m) powr (N * m + 2)"
  have pos: "0 < 1 + K / m" using assms by (simp add: add_pos_pos)
  have C: "0 < C" using pos by (simp add: C_def)
  have "(q has_real_derivative - ((N * m + 1) / m) / (1 + K / m) powr (N * m + 1 + 1)) (at K)"
    unfolding q_def using assms by (intro annuity_discount_deriv [OF pos]) simp
  then have dq: "(q has_real_derivative - ((N * m + 1) / m) / C) (at K)"
    by (simp add: C_def add.assoc)
  have d0: "((\<lambda>K. IRR_0 K m N) has_real_derivative IRR_1 K m N) (at K)"
    by (rule IRR_0_deriv [OF assms])
  have K: "K \<noteq> 0" using assms by simp
  from DERIV_mult [OF reciprocal_deriv [OF K, of "- 1"] d0]
  have a: "((\<lambda>K. - 1 / K * IRR_0 K m N) has_real_derivative
          - (- 1 / K\<^sup>2) * IRR_0 K m N + IRR_1 K m N * (- 1 / K)) (at K)" .
  from DERIV_mult [OF reciprocal_deriv [OF K, of "N"] dq]
  have b: "((\<lambda>K. N / K * q K) has_real_derivative
          - (N / K\<^sup>2) * q K + (- ((N * m + 1) / m) / C) * (N / K)) (at K)" .
  have "((\<lambda>K. - 1 / K * IRR_0 K m N + N / K * q K) has_real_derivative
          (- (- 1 / K\<^sup>2) * IRR_0 K m N + IRR_1 K m N * (- 1 / K))
          + (- (N / K\<^sup>2) * q K + (- ((N * m + 1) / m) / C) * (N / K))) (at K)"
    by (rule DERIV_add [OF a b])
  moreover have "(\<lambda>K. - 1 / K * IRR_0 K m N + N / K * q K) = (\<lambda>K. IRR_1 K m N)"
    using assms by (auto simp: IRR_1_def q_def fun_eq_iff)
  moreover have "(- (- 1 / K\<^sup>2) * IRR_0 K m N + IRR_1 K m N * (- 1 / K))
          + (- (N / K\<^sup>2) * q K + (- ((N * m + 1) / m) / C) * (N / K)) = IRR_2 K m N"
  proof -
    have i1: "IRR_1 K m N = - 1 / K * IRR_0 K m N + N / K * q K"
      using assms by (simp add: IRR_1_def q_def)
    have "IRR_2 K m N = - 2 / K * IRR_1 K m N - 1 / (K * m * m) * (N * m) * (N * m + 1) / C"
      by (simp add: IRR_2_def C_def)
    also have "\<dots> = - 1 / K * IRR_1 K m N - 1 / K * (- 1 / K * IRR_0 K m N + N / K * q K)
                      - 1 / (K * m * m) * (N * m) * (N * m + 1) / C"
      unfolding i1 [symmetric] by (simp add: algebra_simps)
    also have "\<dots> = (- (- 1 / K\<^sup>2) * IRR_0 K m N + IRR_1 K m N * (- 1 / K))
          + (- (N / K\<^sup>2) * q K + (- ((N * m + 1) / m) / C) * (N / K))"
      using assms C by (simp add: power2_eq_square field_simps)
    finally show ?thesis by simp
  qed
  ultimately show ?thesis by simp
qed

text \<open>
  C7. For positive \<open>K\<close>, \<open>m\<close>, \<open>N\<close>, \<open>IRR_1\<close> is the derivative in \<open>K\<close> of \<open>IRR_0\<close> and
  \<open>IRR_2\<close> is the derivative in \<open>K\<close> of \<open>IRR_1\<close> (the second derivative of \<open>IRR_0\<close>); the
  formulas are recursive, \<open>IRR_1\<close> in terms of \<open>IRR_0\<close> and \<open>IRR_2\<close> in terms of \<open>IRR_1\<close>.
\<close>

theorem IRR_derivatives:
  assumes "0 < K" and "0 < m" and "0 < N"
  shows "((\<lambda>K. IRR_0 K m N) has_real_derivative IRR_1 K m N) (at K)
       \<and> ((\<lambda>K. IRR_1 K m N) has_real_derivative IRR_2 K m N) (at K)
       \<and> IRR_1 K m N
           = - 1 / K * IRR_0 K m N + 1 / (K * m) * N * m / (1 + K / m) powr (N * m + 1)
       \<and> IRR_2 K m N
           = - 2 / K * IRR_1 K m N
             - 1 / (K * m * m) * (N * m) * (N * m + 1) / (1 + K / m) powr (N * m + 2)"
proof (intro conjI)
  show "((\<lambda>K. IRR_0 K m N) has_real_derivative IRR_1 K m N) (at K)"
    using assms by (intro IRR_0_deriv)
  show "((\<lambda>K. IRR_1 K m N) has_real_derivative IRR_2 K m N) (at K)"
    using assms by (intro IRR_1_deriv)
  show "IRR_1 K m N
          = - 1 / K * IRR_0 K m N + 1 / (K * m) * N * m / (1 + K / m) powr (N * m + 1)"
    by (simp only: IRR_1_def)
  show "IRR_2 K m N
          = - 2 / K * IRR_1 K m N
            - 1 / (K * m * m) * (N * m) * (N * m + 1) / (1 + K / m) powr (N * m + 2)"
    by (simp only: IRR_2_def)
qed

theorem IRR_derivatives_witness:
  "(0::real) < 1 / 20 \<and> (0::real) < 2 \<and> (0::real) < 10
   \<and> ((\<lambda>K. IRR_0 K 2 10) has_real_derivative IRR_1 (1 / 20) 2 10) (at (1 / 20))
   \<and> ((\<lambda>K. IRR_1 K 2 10) has_real_derivative IRR_2 (1 / 20) 2 10) (at (1 / 20))"
proof -
  have pos: "(0::real) < 1 / 20" "(0::real) < 2" "(0::real) < 10"
    by simp_all
  from IRR_derivatives [OF pos] pos show ?thesis
    by blast
qed

text \<open>
  C8. For positive \<open>m\<close> and \<open>N\<close> the annuity \<open>IRR_0(K, m, N)\<close> tends to \<open>N\<close> as \<open>K\<close> tends
  to 0 from above.
\<close>

theorem IRR_0_limit_at_zero:
  assumes "0 < m" and "0 < N"
  shows "((\<lambda>K. IRR_0 K m N) \<longlongrightarrow> N) (at_right 0)"
proof -
  define q where "q = (\<lambda>K. 1 / (1 + K / m) powr (m * N))"
  have "(q has_real_derivative - (m * N / m) / (1 + 0 / m) powr (m * N + 1)) (at 0)"
    unfolding q_def using assms by (intro annuity_discount_deriv) simp_all
  then have "(q has_real_derivative - N) (at 0)"
    using assms by simp
  then have "(\<lambda>h. (q (0 + h) - q 0) / h) \<midarrow>0\<rightarrow> - N"
    by (simp only: DERIV_def)
  then have "(\<lambda>h. - ((q (0 + h) - q 0) / h)) \<midarrow>0\<rightarrow> - (- N)"
    by (rule tendsto_minus)
  moreover have "- ((q (0 + h) - q 0) / h) = IRR_0 h m N" for h
    by (simp add: IRR_0_def q_def minus_divide_left)
  ultimately have "(\<lambda>K. IRR_0 K m N) \<midarrow>0\<rightarrow> N"
    by simp
  then show ?thesis
    by (rule tendsto_within_subset) simp
qed

theorem IRR_0_limit_at_zero_witness:
  "(0::real) < 2 \<and> (0::real) < 10 \<and> ((\<lambda>K. IRR_0 K 2 10) \<longlongrightarrow> 10) (at_right 0)"
  using IRR_0_limit_at_zero [of 2 10] by simp

subsection \<open>The two pricers\<close>

lemma arange_sample: "arange (3 / 2) (5 / 2) (1 / 2) = Inr [3 / 2, 2]"
  by (simp add: arange_def eval_nat_numeral)

lemma forward_sample:
  "compute_forward_swap_rate 1 1 sample_curve (1 / 2) (1 / 2) = Inr (46 / 925)"
  by (simp add: compute_forward_swap_rate_def arange_sample sample_curve_def)

text \<open>
  C3. Whenever the curve yields a forward swap rate \<open>F\<close>, the unrestricted-payoff pricer
  returns \<open>DF * g_0(F)\<close>, plus the integral from \<open>1e-6\<close> to \<open>F\<close> of \<open>h_2\<close> times the receiver
  price, plus the integral from \<open>F\<close> to infinity of \<open>h_2\<close> times the payer price, and
  nothing else (the term \<open>second_term\<close> is 0).
\<close>

theorem compute_options_payoff_1_terms:
  assumes "compute_forward_swap_rate expiry tenor df payment_period payment_period = Inr F"
  shows "compute_options_payoff_1 env expiry tenor payment_period DF df =
    Inr (DF * g_0 F
         + fst (quad env
             (\<lambda>x. h_2 x (1 / payment_period) tenor
               * irr_settled_option_price DF F x
                   (SABR_model F x expiry (sabr_alpha_interp env expiry tenor)
                      (sabr_beta_interp env expiry tenor) (sabr_rho_interp env expiry tenor)
                      (sabr_nu_interp env expiry tenor))
                   expiry (1 / payment_period) tenor ''receiver'')
             (Finite (1 / 10 ^ 6)) (Finite F))
         + fst (quad env
             (\<lambda>x. h_2 x (1 / payment_period) tenor
               * irr_settled_option_price DF F x
                   (SABR_model F x expiry (sabr_alpha_interp env expiry tenor)
                      (sabr_beta_interp env expiry tenor) (sabr_rho_interp env expiry tenor)
                      (sabr_nu_interp env expiry tenor))
                   expiry (1 / payment_period) tenor ''payer'')
             (Finite F) PlusInfinity))"
  using assms by (simp add: compute_options_payoff_1_def Let_def)

theorem compute_options_payoff_1_terms_witness:
  "compute_forward_swap_rate 1 1 sample_curve (1 / 2) (1 / 2) = Inr (46 / 925)
   \<and> compute_options_payoff_1 sample_env 1 1 (1 / 2) (9 / 10) sample_curve =
    Inr (9 / 10 * g_0 (46 / 925)
         + (46 / 925 - 1 / 10 ^ 6)
            * (h_2 ((1 / 10 ^ 6 + 46 / 925) / 2) 2 1
               * irr_settled_option_price (9 / 10) (46 / 925) ((1 / 10 ^ 6 + 46 / 925) / 2)
                   (SABR_model (46 / 925) ((1 / 10 ^ 6 + 46 / 925) / 2) 1
                      (15 / 100) (9 / 10) (- 3 / 10) (4 / 10))
                   1 2 1 ''receiver'')
         + 4 * (h_2 (46 / 925 + 1) 2 1
               * irr_settled_option_price (9 / 10) (46 / 925) (46 / 925 + 1)
                   (SABR_model (46 / 925) (46 / 925 + 1) 1
                      (15 / 100) (9 / 10) (- 3 / 10) (4 / 10))
                   1 2 1 ''payer''))"
  using compute_options_payoff_1_terms [OF forward_sample, of sample_env "9 / 10"]
  by (simp add: forward_sample sample_env_def midpoint_quad_def)

text \<open>
  C1. The claim is that the floored-payoff pricer integrates from the floor \<open>L\<close>. At the
  floor \<open>L = 0.2^4 = 0.0016\<close> of the notebook, on the sample curve (forward \<open>46/925\<close>), the
  pricer hands the integrator the interval from the forward \<open>46/925\<close> to infinity, which is
  not the interval from \<open>L\<close>; the point term is taken at \<open>L\<close>.
\<close>

theorem compute_options_payoff_2_lower_limit:
  "compute_options_payoff_2 env (16 / 10000) 1 1 (1 / 2) (9 / 10) sample_curve =
    Inr (irr_settled_option_price (9 / 10) (46 / 925) (16 / 10000)
           (SABR_model (46 / 925) (16 / 10000) 1 (sabr_alpha_interp env 1 1)
              (sabr_beta_interp env 1 1) (sabr_rho_interp env 1 1) (sabr_nu_interp env 1 1))
           1 2 1 ''payer''
          * h_1 (16 / 10000) 2 1
         + fst (quad env
             (\<lambda>x. h_2 x 2 1
               * irr_settled_option_price (9 / 10) (46 / 925) x
                   (SABR_model (46 / 925) x 1 (sabr_alpha_interp env 1 1)
                      (sabr_beta_interp env 1 1) (sabr_rho_interp env 1 1) (sabr_nu_interp env 1 1))
                   1 2 1 ''payer'')
             (Finite (46 / 925)) PlusInfinity))
   \<and> Finite (46 / 925) \<noteq> Finite (16 / 10000)"
  by (simp add: compute_options_payoff_2_def forward_sample Let_def)

end
